theory Spec2Isabelle
  imports Main
begin

section \<open>JavaScript values\<close>

text \<open>
  The values the middleware of \<^verbatim>\<open>client/middleware/express-honeypot.js\<close> handles are
  parsed JSON: the request body (\<^verbatim>\<open>express.json()\<close>) and the oracle's reply
  (\<^verbatim>\<open>resp.data\<close> of axios). A \<open>char\<close> stands for a UTF-16 code unit below 256; an
  object is the list of its own properties in order, with distinct keys.

  The handler never calculates with a number: it tests it for truthiness, converts it to
  a string, or hands it on. So a number is given by the text that \<^verbatim>\<open>String\<close> writes
  for it: \<^verbatim>\<open>50\<close> for fifty, \<^verbatim>\<open>0.5\<close> for one half, \<^verbatim>\<open>1e+21\<close> for ten to the 21,
  \<^verbatim>\<open>0\<close> for both zeros, \<^verbatim>\<open>NaN\<close> for the number that is none.
\<close>

datatype jsval =
    JUndefined
  | JNull
  | JBool bool
  | JNum string
  | JStr string
  | JArr "jsval list"
  | JObj "(string \<times> jsval) list"

text \<open>
  What \<^verbatim>\<open>parseInt\<close> returns: an integer of magnitude up to \<open>2 ^ 53\<close> (that is
  9007199254740992), which a double holds exactly; the double nearest to a larger
  integer; or \<^verbatim>\<open>NaN\<close>.
\<close>

datatype jsnum = Fin int | Rounded int | NaN

text \<open>
  The exceptions raised inside the handler: the \<^verbatim>\<open>TypeError\<close> of its own expressions on
  such values, and whatever a method of \<^verbatim>\<open>res\<close> raises.
\<close>

datatype js_error = TypeError | ResponseError

text \<open>Truthiness, as \<^verbatim>\<open>!x\<close>, \<^verbatim>\<open>x && y\<close> and \<^verbatim>\<open>x || y\<close> read it.\<close>

fun truthy :: "jsval \<Rightarrow> bool" where
  "truthy JUndefined = False"
| "truthy JNull = False"
| "truthy (JBool b) = b"
| "truthy (JNum t) = (t \<noteq> ''0'' \<and> t \<noteq> ''NaN'')"
| "truthy (JStr s) = (s \<noteq> [])"
| "truthy (JArr xs) = True"
| "truthy (JObj kvs) = True"

fun typeof :: "jsval \<Rightarrow> string" where
  "typeof JUndefined = ''undefined''"
| "typeof JNull = ''object''"
| "typeof (JBool b) = ''boolean''"
| "typeof (JNum n) = ''number''"
| "typeof (JStr s) = ''string''"
| "typeof (JArr xs) = ''object''"
| "typeof (JObj kvs) = ''object''"

text \<open>\<^verbatim>\<open>a || b\<close> on values.\<close>

definition or_js :: "jsval \<Rightarrow> jsval \<Rightarrow> jsval" where
  "or_js a b = (if truthy a then a else b)"

text \<open>\<^verbatim>\<open>a || b\<close> where \<open>a\<close> is a string or undefined and \<open>b\<close> a string.\<close>

definition or_str :: "string option \<Rightarrow> string \<Rightarrow> string" where
  "or_str a b = (case a of None \<Rightarrow> b | Some s \<Rightarrow> if s = [] then b else s)"

text \<open>
  Reading a property \<^verbatim>\<open>v.k\<close> of a truthy value, for the names the handler reads
  (\<^verbatim>\<open>action_result\<close>, \<^verbatim>\<open>action\<close>, \<^verbatim>\<open>action_type\<close>, \<^verbatim>\<open>url\<close>, \<^verbatim>\<open>fake\<close>,
  \<^verbatim>\<open>fake_payload\<close>, \<^verbatim>\<open>delay_ms\<close>, \<^verbatim>\<open>status\<close>, \<^verbatim>\<open>message\<close>): none of them is a
  property of a prototype, so only an object's own property gives a value. The handler
  reads properties of truthy values only, so the \<^verbatim>\<open>TypeError\<close> of \<^verbatim>\<open>null.k\<close> cannot
  arise.
\<close>

fun js_get :: "jsval \<Rightarrow> string \<Rightarrow> jsval" where
  "js_get (JObj kvs) k = (case map_of kvs k of Some v \<Rightarrow> v | None \<Rightarrow> JUndefined)"
| "js_get v k = JUndefined"

text \<open>\<^verbatim>\<open>Object.values(v)\<close> of a truthy value of type object.\<close>

fun Object_values :: "jsval \<Rightarrow> jsval list" where
  "Object_values (JObj kvs) = map snd kvs"
| "Object_values (JArr xs) = xs"
| "Object_values v = []"

section \<open>Strings\<close>

text \<open>\<^verbatim>\<open>String.prototype.toLowerCase\<close> on code units below 256.\<close>

definition toLowerCase_char :: "char \<Rightarrow> char" where
  "toLowerCase_char c =
     (let n = (of_char c :: nat)
      in if (65 \<le> n \<and> n \<le> 90) \<or> (192 \<le> n \<and> n \<le> 222 \<and> n \<noteq> 215)
         then char_of (n + 32) else c)"

definition toLowerCase :: "string \<Rightarrow> string" where
  "toLowerCase s = map toLowerCase_char s"

text \<open>\<^verbatim>\<open>s.startsWith(t)\<close> and \<^verbatim>\<open>s.includes(t)\<close>.\<close>

definition startsWith :: "string \<Rightarrow> string \<Rightarrow> bool" where
  "startsWith s t = (take (length t) s = t)"

fun str_includes :: "string \<Rightarrow> string \<Rightarrow> bool" where
  "str_includes [] t = (t = [])"
| "str_includes (c # cs) t = (startsWith (c # cs) t \<or> str_includes cs t)"

text \<open>
  The canonical form of a code unit under the \<^verbatim>\<open>i\<close> flag of a regular expression
  without the \<^verbatim>\<open>u\<close> flag: its upper case when that is one code unit and does not map
  a code unit from 128 on to one below 128.
\<close>

definition canonicalize :: "char \<Rightarrow> nat" where
  "canonicalize c =
     (let n = (of_char c :: nat)
      in if 97 \<le> n \<and> n \<le> 122 then n - 32
         else if 224 \<le> n \<and> n \<le> 254 \<and> n \<noteq> 247 then n - 32
         else if n = 255 then 376
         else if n = 181 then 924
         else n)"

text \<open>A literal alternative matches at the start of the subject, ignoring case.\<close>

fun matches_here :: "string \<Rightarrow> string \<Rightarrow> bool" where
  "matches_here [] s = True"
| "matches_here (p # ps) [] = False"
| "matches_here (p # ps) (c # cs) = (canonicalize c = canonicalize p \<and> matches_here ps cs)"

text \<open>
  \<^verbatim>\<open>/a1|a2|...|an/i.test(s)\<close> for literal alternatives: some alternative matches at
  some position of the subject.
\<close>

fun regex_test :: "string list \<Rightarrow> string \<Rightarrow> bool" where
  "regex_test alts [] = list_ex (\<lambda>a. matches_here a []) alts"
| "regex_test alts (c # cs) = (list_ex (\<lambda>a. matches_here a (c # cs)) alts \<or> regex_test alts cs)"

text \<open>\<^verbatim>\<open>base.replace(/\/$/, "")\<close>: one slash at the very end, when there is one, is removed.\<close>

definition strip_trailing_slash :: "string \<Rightarrow> string" where
  "strip_trailing_slash s = (if s \<noteq> [] \<and> last s = CHR ''/'' then butlast s else s)"

section \<open>Numbers and strings\<close>




text \<open>
  The abstract operation \<^verbatim>\<open>ToString\<close>, which \<^verbatim>\<open>parseInt\<close> and \<^verbatim>\<open>Array.join\<close>
  apply. An array is the join of its elements with commas, \<^verbatim>\<open>null\<close> and
  \<^verbatim>\<open>undefined\<close> elements giving the empty string. A parsed object inherits
  \<^verbatim>\<open>Object.prototype.toString\<close> unless it has an own property \<^verbatim>\<open>toString\<close>, which is
  never callable: then the conversion raises \<^verbatim>\<open>TypeError\<close>.
\<close>

fun ToString :: "jsval \<Rightarrow> js_error + string"
  and join_elems :: "jsval list \<Rightarrow> js_error + string" where
  "ToString JUndefined = Inr ''undefined''"
| "ToString JNull = Inr ''null''"
| "ToString (JBool b) = Inr (if b then ''true'' else ''false'')"
| "ToString (JNum t) = Inr t"
| "ToString (JStr s) = Inr s"
| "ToString (JArr xs) = join_elems xs"
| "ToString (JObj kvs) =
     (if map_of kvs ''toString'' \<noteq> None then Inl TypeError else Inr ''[object Object]'')"
| "join_elems [] = Inr []"
| "join_elems (x # xs) =
     (case (if x = JUndefined \<or> x = JNull then Inr [] else ToString x) of
        Inl e \<Rightarrow> Inl e
      | Inr s \<Rightarrow>
          (if xs = [] then Inr s
           else (case join_elems xs of Inl e \<Rightarrow> Inl e | Inr r \<Rightarrow> Inr (s @ '','' @ r))))"

text \<open>
  The method call \<^verbatim>\<open>v.toString()\<close>: on \<^verbatim>\<open>null\<close> and \<^verbatim>\<open>undefined\<close> it raises, on
  every other value it gives what \<open>ToString\<close> gives.
\<close>

definition method_toString :: "jsval \<Rightarrow> js_error + string" where
  "method_toString v = (if v = JUndefined \<or> v = JNull then Inl TypeError else ToString v)"

text \<open>
  \<^verbatim>\<open>parseInt(s, 10)\<close> of a string: white space, a sign, then the longest run of digits.
  The integer read is the result when a double holds it exactly; otherwise the result is
  the double nearest to it.
\<close>

definition isWhiteSpace :: "char \<Rightarrow> bool" where
  "isWhiteSpace c = ((of_char c :: nat) \<in> {9, 10, 11, 12, 13, 32, 160})"

definition isDigit :: "char \<Rightarrow> bool" where
  "isDigit c = (48 \<le> (of_char c :: nat) \<and> (of_char c :: nat) \<le> 57)"

definition digits_value :: "string \<Rightarrow> int" where
  "digits_value ds = foldl (\<lambda>a c. 10 * a + (of_char c - 48)) 0 ds"

definition parseInt_str :: "string \<Rightarrow> jsnum" where
  "parseInt_str s =
     (let t = dropWhile isWhiteSpace s;
          neg = (t \<noteq> [] \<and> hd t = CHR ''-'');
          u = (if t \<noteq> [] \<and> (hd t = CHR ''-'' \<or> hd t = CHR ''+'') then tl t else t);
          ds = takeWhile isDigit u
      in if ds = [] then NaN
         else if digits_value ds \<le> 9007199254740992
         then Fin (if neg then - digits_value ds else digits_value ds)
         else Rounded (if neg then - digits_value ds else digits_value ds))"

text \<open>\<^verbatim>\<open>parseInt(v, 10)\<close> of a value: \<open>ToString\<close> first.\<close>

definition parseInt :: "jsval \<Rightarrow> js_error + jsnum" where
  "parseInt v = (case ToString v of Inl e \<Rightarrow> Inl e | Inr s \<Rightarrow> Inr (parseInt_str s))"

section \<open>\<^verbatim>\<open>JSON.stringify\<close>\<close>

definition hex_digit :: "nat \<Rightarrow> char" where
  "hex_digit d = (if d < 10 then char_of (48 + d) else char_of (87 + d))"

text \<open>
  The escapes of a string literal: the quote, the backslash, the five short escapes and
  \<^verbatim>\<open>\u00xx\<close> (lower-case hexadecimal) for the other code units below 32.
\<close>

definition quote_char :: "char \<Rightarrow> string" where
  "quote_char c =
     (let n = (of_char c :: nat)
      in if n = 8 then [CHR 0x5C, CHR ''b'']
         else if n = 9 then [CHR 0x5C, CHR ''t'']
         else if n = 10 then [CHR 0x5C, CHR ''n'']
         else if n = 12 then [CHR 0x5C, CHR ''f'']
         else if n = 13 then [CHR 0x5C, CHR ''r'']
         else if n = 34 then [CHR 0x5C, CHR 0x22]
         else if n = 92 then [CHR 0x5C, CHR 0x5C]
         else if n < 32 then
           [CHR 0x5C, CHR ''u'', CHR ''0'', CHR ''0'', hex_digit (n div 16), hex_digit (n mod 16)]
         else [c])"

definition Quote :: "string \<Rightarrow> string" where
  "Quote s = CHR 0x22 # concat (map quote_char s) @ [CHR 0x22]"

fun join_commas :: "string list \<Rightarrow> string" where
  "join_commas [] = []"
| "join_commas [s] = s"
| "join_commas (s # t # ts) = s @ '','' @ join_commas (t # ts)"

text \<open>
  \<^verbatim>\<open>JSON.stringify(v)\<close> with no replacer and no indentation; \<open>None\<close> is the result
  \<^verbatim>\<open>undefined\<close>. An \<^verbatim>\<open>undefined\<close> element of an array is written \<^verbatim>\<open>null\<close>, a
  property whose value is \<^verbatim>\<open>undefined\<close> is left out.
\<close>

fun JSON_stringify :: "jsval \<Rightarrow> string option"
  and stringify_elems :: "jsval list \<Rightarrow> string list"
  and stringify_props :: "(string \<times> jsval) list \<Rightarrow> string list" where
  "JSON_stringify JUndefined = None"
| "JSON_stringify JNull = Some ''null''"
| "JSON_stringify (JBool b) = Some (if b then ''true'' else ''false'')"
| "JSON_stringify (JNum t) =
     Some (if t = ''NaN'' \<or> t = ''Infinity'' \<or> t = ''-Infinity'' then ''null'' else t)"
| "JSON_stringify (JStr s) = Some (Quote s)"
| "JSON_stringify (JArr xs) = Some (''['' @ join_commas (stringify_elems xs) @ '']'')"
| "JSON_stringify (JObj kvs) = Some (''{'' @ join_commas (stringify_props kvs) @ ''}'')"
| "stringify_elems [] = []"
| "stringify_elems (x # xs) =
     (case JSON_stringify x of None \<Rightarrow> ''null'' | Some s \<Rightarrow> s) # stringify_elems xs"
| "stringify_props [] = []"
| "stringify_props ((k, v) # kvs) =
     (case JSON_stringify v of
        None \<Rightarrow> stringify_props kvs
      | Some s \<Rightarrow> (Quote k @ '':'' @ s) # stringify_props kvs)"

section \<open>The request, the environment and the oracle\<close>

text \<open>
  The fields of \<^verbatim>\<open>req\<close> the middleware reads. \<open>None\<close> is \<^verbatim>\<open>undefined\<close>;
  \<^verbatim>\<open>req.rawBody\<close>, when set, is a buffer or a string, given by its text.
\<close>

record request =
  req_method :: string
  req_originalUrl :: "string option"
  req_url :: "string option"
  req_body :: jsval
  req_rawBody :: "string option"
  req_ip :: "string option"
  req_x_forwarded_for :: "string option"

text \<open>The variables of \<^verbatim>\<open>process.env\<close> the module reads.\<close>

record environment =
  env_HONEYPOT_URL :: "string option"
  env_HONEYPOT_TIMEOUT_MS :: "string option"
  env_HONEYPOT_BASE :: "string option"

definition HONEYPOT_URL :: "environment \<Rightarrow> string" where
  "HONEYPOT_URL env = or_str (env_HONEYPOT_URL env) ''http://127.0.0.1:5000/simulate_traffic''"

definition HONEYPOT_TIMEOUT_MS :: "environment \<Rightarrow> jsnum" where
  "HONEYPOT_TIMEOUT_MS env = parseInt_str (or_str (env_HONEYPOT_TIMEOUT_MS env) ''2000'')"

text \<open>What is posted to the oracle; \<open>payload = None\<close> is a payload that is \<^verbatim>\<open>undefined\<close>.\<close>

record verdict_request =
  src_ip :: string
  payload :: "string option"

text \<open>
  How \<^verbatim>\<open>await axios.post(...)\<close> ends: the promise is rejected (with the code
  \<^verbatim>\<open>ECONNABORTED\<close> on a timeout, with another error otherwise), or it is resolved and
  \<^verbatim>\<open>resp.data\<close> is the value given.
\<close>

datatype axios_error = ECONNABORTED | OtherError

datatype axios_result = Rejected axios_error | Resolved jsval

text \<open>
  The calls of \<^verbatim>\<open>res\<close> that may raise: \<^verbatim>\<open>res.redirect(url)\<close> where \<^verbatim>\<open>url\<close> is no
  string, and \<^verbatim>\<open>res.status(s).send(m)\<close> (a status outside the range of HTTP makes it
  raise, for one). Whether such a call raises is the matter of the response object, which
  is not code of this repository: it is a parameter of the model, the function that tells
  of a call whether it raises. \<^verbatim>\<open>res.redirect\<close> of a string and
  \<^verbatim>\<open>res.status(200).json\<close> of a parsed value are taken to return normally, and so is
  \<^verbatim>\<open>next()\<close>.
\<close>

datatype res_call = RedirectCall jsval | SendCall jsval jsval

text \<open>
  What the handler does to the outside, in order: the call of \<^verbatim>\<open>next()\<close>, the post to
  the oracle (endpoint, timeout, body), the wait
  \<^verbatim>\<open>await new Promise(r => setTimeout(r, d))\<close>, the calls \<^verbatim>\<open>res.redirect(url)\<close>,
  \<^verbatim>\<open>res.status(s).json(b)\<close> and \<^verbatim>\<open>res.status(s).send(m)\<close> that returned normally, and
  the call of \<^verbatim>\<open>res\<close> that raised. Logging is left out.
\<close>

datatype event =
    Next
  | AxiosPost string jsnum verdict_request
  | Redirect jsval
  | StatusJson jsval jsval
  | StatusSend jsval jsval
  | SetTimeout jsnum
  | Raised res_call

text \<open>
  How the \<^verbatim>\<open>try\<close> block ends: by a \<^verbatim>\<open>return\<close>, by reaching its end, or by an
  exception.
\<close>

datatype completion = Returned | FellThrough | Threw js_error

section \<open>The middleware\<close>

text \<open>\<^verbatim>\<open>guessBodyString(req)\<close>, lines 10 to 17.\<close>

definition guessBodyString :: "request \<Rightarrow> string" where
  "guessBodyString req =
     (case (if truthy (req_body req) \<and> typeof (req_body req) = ''string''
            then (case req_body req of JStr s \<Rightarrow> Some s | _ \<Rightarrow> None)
            else if truthy (req_body req) \<and> typeof (req_body req) = ''object''
            then JSON_stringify (req_body req)
            else None) of
        Some s \<Rightarrow> s
      | None \<Rightarrow> (case req_rawBody req of Some b \<Rightarrow> b | None \<Rightarrow> []))"

text \<open>\<^verbatim>\<open>a || b\<close> where both are a string or undefined.\<close>

definition or_opt :: "string option \<Rightarrow> string option \<Rightarrow> string option" where
  "or_opt a b = (case a of None \<Rightarrow> b | Some s \<Rightarrow> if s = [] then b else Some s)"

text \<open>\<^verbatim>\<open>buildPayload(req)\<close>, lines 19 to 25.\<close>

definition buildPayload :: "request \<Rightarrow> verdict_request" where
  "buildPayload req =
     (let bodyStr = guessBodyString req
      in \<lparr> src_ip = or_str (req_ip req) (or_str (req_x_forwarded_for req) ''unknown''),
           payload = (if req_method req = ''GET''
                      then or_opt (req_originalUrl req) (req_url req)
                      else Some bodyStr) \<rparr>)"

text \<open>The constant \<^verbatim>\<open>suspect\<close> of the handler, lines 32 to 46.\<close>

definition suspect :: "request \<Rightarrow> bool" where
  "suspect req =
     (let raw = guessBodyString req;
          urlLower = toLowerCase (or_str (req_originalUrl req) (or_str (req_url req) []));
          bodyLower = toLowerCase raw
      in str_includes urlLower ''select'' \<or>
         str_includes urlLower ''union'' \<or>
         str_includes bodyLower ''select'' \<or>
         str_includes bodyLower ''union'' \<or>
         regex_test [''insert'', ''update'', ''delete'', ''drop'', ''sql''] bodyLower \<or>
         ((truthy (req_body req) \<and> typeof (req_body req) = ''object'') \<and>
          list_ex
            (\<lambda>v. case v of
                   JStr s \<Rightarrow>
                     regex_test
                       [''select'', ''union'', ''insert'', ''update'', ''delete'', ''drop'', ''sql''] s
                 | _ \<Rightarrow> False)
            (Object_values (req_body req))))"

text \<open>The constants \<^verbatim>\<open>ar\<close> and \<^verbatim>\<open>action\<close> of the handler, lines 76 and 77.\<close>

definition ar_of :: "jsval \<Rightarrow> jsval" where
  "ar_of js = or_js (js_get js ''action_result'') (JObj [])"

definition action_of :: "jsval \<Rightarrow> js_error + string" where
  "action_of ar =
     method_toString
       (or_js (or_js (js_get ar ''action'') (js_get ar ''action_type'')) (JStr ''normal''))"

text \<open>
  Lines 73 to 103: the reply \<open>js\<close> of the oracle, which is truthy, is read and
  enforced; \<open>res\<close> tells which calls of the response object raise. The result is what
  was done and how the block was left: a call of \<^verbatim>\<open>res\<close> that raises leaves it by the
  exception, as all of these calls stand inside the \<^verbatim>\<open>try\<close>.
\<close>

definition enforce ::
  "environment \<Rightarrow> (res_call \<Rightarrow> bool) \<Rightarrow> jsval \<Rightarrow> event list \<times> completion" where
  "enforce env res js =
     (let ar = ar_of js
      in case action_of ar of
           Inl err \<Rightarrow> ([], Threw err)
         | Inr action \<Rightarrow>
             if action = ''redirect_honeypot'' \<or> action = ''redirect'' then
               (let url = or_js (js_get ar ''url'') (JStr ''/honeypot/fakedb'');
                    HONEYPOT_BASE = or_str (env_HONEYPOT_BASE env) ''http://127.0.0.1:5000''
                in case url of
                     JStr s \<Rightarrow>
                       ([Redirect
                           (if startsWith s ''/''
                            then JStr (strip_trailing_slash HONEYPOT_BASE @ s)
                            else url)],
                        Returned)
                   | _ \<Rightarrow>
                       if res (RedirectCall url)
                       then ([Raised (RedirectCall url)], Threw ResponseError)
                       else ([Redirect url], Returned))
             else if action = ''fake_data'' \<or> truthy (js_get ar ''fake'') then
               ([StatusJson (JNum ''200'')
                   (or_js (js_get ar ''fake_payload'') (JObj [(''fake'', JStr ''simulated data'')]))],
                Returned)
             else if action = ''tarpit'' \<or> action = ''tarpit_slowdown'' \<or> action = ''delay'' then
               (case parseInt (or_js (js_get ar ''delay_ms'') (JNum ''1000'')) of
                  Inl err \<Rightarrow> ([], Threw err)
                | Inr d \<Rightarrow>
                    (let status = or_js (js_get ar ''status'') (JNum ''200'');
                         message = or_js (js_get ar ''message'') (JStr ''Slow down'')
                     in if res (SendCall status message)
                        then ([SetTimeout d, Raised (SendCall status message)], Threw ResponseError)
                        else ([SetTimeout d, StatusSend status message], Returned)))
             else ([], FellThrough))"

text \<open>The post to the oracle, line 58.\<close>

definition oracle_post :: "environment \<Rightarrow> request \<Rightarrow> event" where
  "oracle_post env req =
     AxiosPost (HONEYPOT_URL env) (HONEYPOT_TIMEOUT_MS env) (buildPayload req)"

text \<open>
  The \<^verbatim>\<open>try\<close> block of the handler, lines 29 to 104. The oracle is the function
  that tells how the post ends for the body posted.
\<close>

definition handler_try ::
  "environment \<Rightarrow> (res_call \<Rightarrow> bool) \<Rightarrow> (verdict_request \<Rightarrow> axios_result) \<Rightarrow> request \<Rightarrow>
     event list \<times> completion" where
  "handler_try env res oracle req =
     (if \<not> suspect req then ([Next], Returned)
      else
        (let payload = buildPayload req;
             post = oracle_post env req
         in case oracle payload of
              Rejected err \<Rightarrow> ([post, Next], Returned)
            | Resolved js \<Rightarrow>
                if \<not> truthy js then ([post, Next], Returned)
                else (case enforce env res js of (evs, c) \<Rightarrow> (post # evs, c))))"

text \<open>
  The handler that \<^verbatim>\<open>honeypotMiddleware(opts)\<close> returns, lines 28 to 110: after a
  \<^verbatim>\<open>return\<close> inside the block nothing more is done; when the block ends or raises (the
  \<^verbatim>\<open>catch\<close> clause only logs), \<^verbatim>\<open>next()\<close> is called.
\<close>

definition honeypotMiddleware ::
  "environment \<Rightarrow> (res_call \<Rightarrow> bool) \<Rightarrow> (verdict_request \<Rightarrow> axios_result) \<Rightarrow> request \<Rightarrow>
     event list" where
  "honeypotMiddleware env res oracle req =
     (case handler_try env res oracle req of
        (evs, Returned) \<Rightarrow> evs
      | (evs, FellThrough) \<Rightarrow> evs @ [Next]
      | (evs, Threw err) \<Rightarrow> evs @ [Next])"

section \<open>What the claims speak of\<close>

text \<open>
  The terminal outcomes of a request: the pass-through to the application, and the
  response the middleware writes itself, which is a call of \<^verbatim>\<open>res\<close> that returned. A
  call of \<^verbatim>\<open>res\<close> is one that returned or one that raised.
\<close>

fun passthrough :: "event \<Rightarrow> bool" where
  "passthrough Next = True"
| "passthrough e = False"

fun synthesized :: "event \<Rightarrow> bool" where
  "synthesized (Redirect u) = True"
| "synthesized (StatusJson s b) = True"
| "synthesized (StatusSend s m) = True"
| "synthesized e = False"

fun response_call :: "event \<Rightarrow> bool" where
  "response_call (Redirect u) = True"
| "response_call (StatusJson s b) = True"
| "response_call (StatusSend s m) = True"
| "response_call (Raised c) = True"
| "response_call e = False"

text \<open>The action names of the oracle's contract.\<close>

definition known_actions :: "string list" where
  "known_actions =
     [''normal'', ''allow'', ''redirect'', ''redirect_honeypot'', ''fake_data'',
      ''tarpit'', ''tarpit_slowdown'', ''delay'']"

text \<open>
  A reply that is no well-formed actionable verdict: no field marks an action
  (\<^verbatim>\<open>fake\<close> is not truthy), and either the action is missing (neither \<^verbatim>\<open>action\<close>
  nor its alternative \<^verbatim>\<open>action_type\<close> is there) or the value of \<^verbatim>\<open>action\<close> is
  unknown: its string is none of the contract's names, or it has no string at all.
\<close>

definition unknown_action :: "jsval \<Rightarrow> bool" where
  "unknown_action v =
     (case method_toString v of Inl e \<Rightarrow> True | Inr a \<Rightarrow> \<not> List.member known_actions a)"

definition malformed_verdict :: "jsval \<Rightarrow> bool" where
  "malformed_verdict js =
     (\<not> truthy (js_get (ar_of js) ''fake'') \<and>
      (if truthy (js_get (ar_of js) ''action'')
       then unknown_action (js_get (ar_of js) ''action'')
       else \<not> truthy (js_get (ar_of js) ''action_type'')))"

text \<open>
  The outcomes of the oracle call that count as no verdict: a timeout, a failure of the
  transport, an empty reply, a reply that is no well-formed actionable verdict.
\<close>

fun no_verdict :: "axios_result \<Rightarrow> bool" where
  "no_verdict (Rejected err) = True"
| "no_verdict (Resolved js) = (if truthy js then malformed_verdict js else True)"








section \<open>Requests, environments and oracles to evaluate on\<close>

definition env_default :: environment where
  "env_default =
     \<lparr> env_HONEYPOT_URL = None, env_HONEYPOT_TIMEOUT_MS = None, env_HONEYPOT_BASE = None \<rparr>"

definition env_h :: environment where
  "env_h =
     \<lparr> env_HONEYPOT_URL = None, env_HONEYPOT_TIMEOUT_MS = None,
       env_HONEYPOT_BASE = Some ''http://h:5000/'' \<rparr>"

text \<open>\<^verbatim>\<open>POST /login\<close> with the JSON body \<^verbatim>\<open>{"user": "a' UNION SELECT 1"}\<close>.\<close>

definition req_login :: request where
  "req_login =
     \<lparr> req_method = ''POST'', req_originalUrl = Some ''/login'', req_url = Some ''/login'',
       req_body = JObj [(''user'', JStr ''a' UNION SELECT 1'')], req_rawBody = None,
       req_ip = Some ''10.0.0.10'', req_x_forwarded_for = None \<rparr>"



text \<open>
  Two response objects: one whose calls all return, and one that raises on a status that
  is no integer from 100 to 999 and on a redirect target that has no string.
\<close>

definition res_ok :: "res_call \<Rightarrow> bool" where
  "res_ok c = False"

fun res_checked :: "res_call \<Rightarrow> bool" where
  "res_checked (SendCall s m) =
     (case s of
        JNum t \<Rightarrow> (case parseInt_str t of Fin n \<Rightarrow> n < 100 \<or> 999 < n | _ \<Rightarrow> True)
      | _ \<Rightarrow> True)"
| "res_checked (RedirectCall u) = (case ToString u of Inl e \<Rightarrow> True | Inr t \<Rightarrow> False)"

text \<open>The oracle that answers \<^verbatim>\<open>{"action_result": ar}\<close> to every post.\<close>

definition reply :: "(string \<times> jsval) list \<Rightarrow> verdict_request \<Rightarrow> axios_result" where
  "reply ar p = Resolved (JObj [(''action_result'', JObj ar)])"

text \<open>The oracle whose reply is \<open>js\<close> whatever is posted.\<close>

definition reply_data :: "jsval \<Rightarrow> verdict_request \<Rightarrow> axios_result" where
  "reply_data js p = Resolved js"

section \<open>The shape of a run\<close>

lemma middleware_benign:
  "\<not> suspect req \<Longrightarrow> honeypotMiddleware env res orc req = [Next]"
  by (simp add: honeypotMiddleware_def handler_try_def)

lemma middleware_rejected:
  "suspect req \<Longrightarrow> orc (buildPayload req) = Rejected err \<Longrightarrow>
   honeypotMiddleware env res orc req = [oracle_post env req, Next]"
  by (simp add: honeypotMiddleware_def handler_try_def)

lemma middleware_empty:
  "suspect req \<Longrightarrow> orc (buildPayload req) = Resolved js \<Longrightarrow> \<not> truthy js \<Longrightarrow>
   honeypotMiddleware env res orc req = [oracle_post env req, Next]"
  by (simp add: honeypotMiddleware_def handler_try_def)

lemma middleware_enforced:
  "suspect req \<Longrightarrow> orc (buildPayload req) = Resolved js \<Longrightarrow> truthy js \<Longrightarrow>
   honeypotMiddleware env res orc req =
     oracle_post env req #
       (case enforce env res js of
          (evs, Returned) \<Rightarrow> evs
        | (evs, FellThrough) \<Rightarrow> evs @ [Next]
        | (evs, Threw err) \<Rightarrow> evs @ [Next])"
  by (simp add: honeypotMiddleware_def handler_try_def split: prod.splits completion.splits)

lemma enforce_threw:
  "action_of (ar_of js) = Inl e \<Longrightarrow> enforce env res js = ([], Threw e)"
  by (simp add: enforce_def)

lemma enforce_redirect_string:
  "action_of (ar_of js) = Inr a \<Longrightarrow> a = ''redirect_honeypot'' \<or> a = ''redirect'' \<Longrightarrow>
   or_js (js_get (ar_of js) ''url'') (JStr ''/honeypot/fakedb'') = JStr s \<Longrightarrow>
   enforce env res js =
     ([Redirect
         (if startsWith s ''/''
          then JStr (strip_trailing_slash
                       (or_str (env_HONEYPOT_BASE env) ''http://127.0.0.1:5000'') @ s)
          else JStr s)],
      Returned)"
  by (auto simp add: enforce_def Let_def)


lemma enforce_fake:
  "action_of (ar_of js) = Inr a \<Longrightarrow> a \<noteq> ''redirect_honeypot'' \<Longrightarrow> a \<noteq> ''redirect'' \<Longrightarrow>
   a = ''fake_data'' \<or> truthy (js_get (ar_of js) ''fake'') \<Longrightarrow>
   enforce env res js =
     ([StatusJson (JNum ''200'')
         (or_js (js_get (ar_of js) ''fake_payload'') (JObj [(''fake'', JStr ''simulated data'')]))],
      Returned)"
  by (auto simp add: enforce_def Let_def)

lemma enforce_tarpit:
  "action_of (ar_of js) = Inr a \<Longrightarrow> a = ''tarpit'' \<or> a = ''tarpit_slowdown'' \<or> a = ''delay'' \<Longrightarrow>
   \<not> truthy (js_get (ar_of js) ''fake'') \<Longrightarrow>
   enforce env res js =
     (case parseInt (or_js (js_get (ar_of js) ''delay_ms'') (JNum ''1000'')) of
        Inl err \<Rightarrow> ([], Threw err)
      | Inr d \<Rightarrow>
          if res (SendCall (or_js (js_get (ar_of js) ''status'') (JNum ''200''))
                    (or_js (js_get (ar_of js) ''message'') (JStr ''Slow down'')))
          then ([SetTimeout d,
                 Raised (SendCall (or_js (js_get (ar_of js) ''status'') (JNum ''200''))
                           (or_js (js_get (ar_of js) ''message'') (JStr ''Slow down'')))],
                Threw ResponseError)
          else ([SetTimeout d,
                 StatusSend (or_js (js_get (ar_of js) ''status'') (JNum ''200''))
                   (or_js (js_get (ar_of js) ''message'') (JStr ''Slow down''))],
                Returned))"
  by (auto simp add: enforce_def Let_def split: sum.splits)

lemma enforce_other:
  "action_of (ar_of js) = Inr a \<Longrightarrow>
   \<not> List.member
       [''redirect'', ''redirect_honeypot'', ''fake_data'', ''tarpit'', ''tarpit_slowdown'',
        ''delay''] a \<Longrightarrow>
   \<not> truthy (js_get (ar_of js) ''fake'') \<Longrightarrow>
   enforce env res js = ([], FellThrough)"
  by (auto simp add: enforce_def Let_def)

lemma enforce_shape:
  "(\<exists>e. enforce env res js = ([], Threw e)) \<or>
   enforce env res js = ([], FellThrough) \<or>
   (\<exists>u. enforce env res js = ([Redirect u], Returned)) \<or>
   (\<exists>u. enforce env res js = ([Raised (RedirectCall u)], Threw ResponseError)) \<or>
   (\<exists>b. enforce env res js = ([StatusJson (JNum ''200'') b], Returned)) \<or>
   (\<exists>d s m. enforce env res js = ([SetTimeout d, StatusSend s m], Returned)) \<or>
   (\<exists>d s m. enforce env res js = ([SetTimeout d, Raised (SendCall s m)], Threw ResponseError))"
  by (auto simp add: enforce_def Let_def split: sum.splits jsval.splits)

lemma suspect_req_login: "suspect req_login"
  by code_simp


section \<open>One terminal outcome for every request\<close>

text \<open>
  Claim C1. Whatever the request, the environment, the end of the oracle call and the
  response object, the handler calls \<^verbatim>\<open>next()\<close> exactly once and completes no
  response, or completes exactly one response (a redirect, fake data or the tarpit's
  reply) and does not call \<^verbatim>\<open>next()\<close>; that outcome is the last thing it does. It
  makes at most one call of \<^verbatim>\<open>res\<close>. This covers the rejected post, the empty reply,
  the exception raised while the verdict is read, and the call of \<^verbatim>\<open>res\<close> that raises
  (a status outside the range of HTTP): that call has completed no response, the handler's
  \<^verbatim>\<open>catch\<close> takes the exception, and \<^verbatim>\<open>next()\<close> is the one outcome.
\<close>

theorem one_terminal_outcome:
  "((length (filter passthrough (honeypotMiddleware env res orc req)) = 1 \<and>
     length (filter synthesized (honeypotMiddleware env res orc req)) = 0) \<or>
    (length (filter passthrough (honeypotMiddleware env res orc req)) = 0 \<and>
     length (filter synthesized (honeypotMiddleware env res orc req)) = 1)) \<and>
   (passthrough (last (honeypotMiddleware env res orc req)) \<or>
    synthesized (last (honeypotMiddleware env res orc req))) \<and>
   length (filter response_call (honeypotMiddleware env res orc req)) \<le> 1"
proof (cases "suspect req")
  case False
  then show ?thesis by (simp add: middleware_benign)
next
  case True
  show ?thesis
  proof (cases "orc (buildPayload req)")
    case (Rejected err)
    with True show ?thesis by (simp add: middleware_rejected oracle_post_def)
  next
    case (Resolved js)
    show ?thesis
    proof (cases "truthy js")
      case False
      with True Resolved show ?thesis by (simp add: middleware_empty oracle_post_def)
    next
      case t: True
      note run = middleware_enforced [where orc = orc and res = res and env = env,
          OF True Resolved t]
      from enforce_shape [of env res js] show ?thesis
        unfolding run by (auto simp add: oracle_post_def)
    qed
  qed
qed

theorem one_terminal_outcome_witness:
  "honeypotMiddleware env_h res_checked (reply [(''action'', JStr ''redirect'')]) req_login =
     [oracle_post env_h req_login, Redirect (JStr ''http://h:5000/honeypot/fakedb'')] \<and>
   honeypotMiddleware env_h res_checked (\<lambda>p. Rejected ECONNABORTED) req_login =
     [oracle_post env_h req_login, Next] \<and>
   honeypotMiddleware env_h res_checked
     (reply [(''action'', JStr ''tarpit''), (''delay_ms'', JNum ''50''), (''status'', JNum ''9999'')])
     req_login =
     [oracle_post env_h req_login, SetTimeout (Fin 50),
      Raised (SendCall (JNum ''9999'') (JStr ''Slow down'')), Next] \<and>
   length (filter passthrough (honeypotMiddleware env_h res_checked
     (reply [(''action'', JStr ''tarpit''), (''delay_ms'', JNum ''50''), (''status'', JNum ''9999'')])
     req_login)) = 1"
proof -
  have a: "honeypotMiddleware env_h res_checked (reply [(''action'', JStr ''redirect'')]) req_login =
           [oracle_post env_h req_login, Redirect (JStr ''http://h:5000/honeypot/fakedb'')]"
    by code_simp
  have b: "honeypotMiddleware env_h res_checked (\<lambda>p. Rejected ECONNABORTED) req_login =
           [oracle_post env_h req_login, Next]"
    by (simp add: middleware_rejected suspect_req_login)
  have c: "honeypotMiddleware env_h res_checked
     (reply [(''action'', JStr ''tarpit''), (''delay_ms'', JNum ''50''), (''status'', JNum ''9999'')])
     req_login =
     [oracle_post env_h req_login, SetTimeout (Fin 50),
      Raised (SendCall (JNum ''9999'') (JStr ''Slow down'')), Next]"
    by code_simp
  from one_terminal_outcome [of env_h res_checked
      "reply [(''action'', JStr ''tarpit''), (''delay_ms'', JNum ''50''), (''status'', JNum ''9999'')]"
      req_login]
  show ?thesis by (simp add: a b c oracle_post_def)
qed

section \<open>The prefilter\<close>































section \<open>Integers read back by \<^verbatim>\<open>parseInt\<close>\<close>










lemma parseInt_JNum_1000: "parseInt (JNum ''1000'') = Inr (Fin 1000)"
  by code_simp


section \<open>No verdict from the oracle\<close>

lemma malformed_passthrough:
  assumes "malformed_verdict js"
  shows "(\<exists>e. enforce env res js = ([], Threw e)) \<or> enforce env res js = ([], FellThrough)"
proof (cases "truthy (js_get (ar_of js) ''action'')")
  case True
  with assms have u: "unknown_action (js_get (ar_of js) ''action'')"
    and f: "\<not> truthy (js_get (ar_of js) ''fake'')"
    by (simp_all add: malformed_verdict_def)
  from True have a: "action_of (ar_of js) = method_toString (js_get (ar_of js) ''action'')"
    by (simp add: action_of_def or_js_def)
  show ?thesis
  proof (cases "method_toString (js_get (ar_of js) ''action'')")
    case (Inl e)
    with a show ?thesis by (simp add: enforce_threw)
  next
    case (Inr s)
    with u have "\<not> List.member known_actions s" by (simp add: unknown_action_def)
    then have "\<not> List.member
       [''redirect'', ''redirect_honeypot'', ''fake_data'', ''tarpit'', ''tarpit_slowdown'',
        ''delay''] s"
      by (auto simp add: known_actions_def)
    with a Inr f show ?thesis by (simp add: enforce_other)
  qed
next
  case False
  with assms have t: "\<not> truthy (js_get (ar_of js) ''action_type'')"
    and f: "\<not> truthy (js_get (ar_of js) ''fake'')"
    by (simp_all add: malformed_verdict_def)
  from False t have "action_of (ar_of js) = Inr ''normal''"
    by (simp add: action_of_def or_js_def method_toString_def)
  with f show ?thesis by (simp add: enforce_other)
qed

text \<open>
  Claim C2. For a suspect request, when the post to the oracle times out or fails
  otherwise, when the reply is empty, or when the reply is no well-formed actionable
  verdict (the action is missing, or its value is unknown, and no other field marks an
  action), the handler does nothing but post and then call \<^verbatim>\<open>next()\<close>. No exception
  leaves it: a value of \<^verbatim>\<open>action\<close> that has no string makes \<^verbatim>\<open>toString\<close> raise, and
  the handler's own \<^verbatim>\<open>catch\<close> turns that into the pass-through too.
\<close>

theorem no_verdict_passthrough:
  assumes "suspect req" and "no_verdict (orc (buildPayload req))"
  shows "honeypotMiddleware env res orc req = [oracle_post env req, Next]"
proof (cases "orc (buildPayload req)")
  case (Rejected err)
  with assms(1) show ?thesis by (rule middleware_rejected)
next
  case (Resolved js)
  show ?thesis
  proof (cases "truthy js")
    case False
    with assms(1) Resolved show ?thesis by (rule middleware_empty)
  next
    case True
    with assms(2) Resolved have "malformed_verdict js" by simp
    note run = middleware_enforced [where orc = orc, OF assms(1) Resolved True]
    from malformed_passthrough [OF \<open>malformed_verdict js\<close>, of env res] show ?thesis
      by (auto simp add: run)
  qed
qed

theorem no_verdict_passthrough_witness:
  "honeypotMiddleware env_default res_ok (\<lambda>p. Rejected ECONNABORTED) req_login =
     [oracle_post env_default req_login, Next] \<and>
   honeypotMiddleware env_default res_ok (\<lambda>p. Rejected OtherError) req_login =
     [oracle_post env_default req_login, Next] \<and>
   honeypotMiddleware env_default res_ok (reply_data (JStr [])) req_login =
     [oracle_post env_default req_login, Next] \<and>
   honeypotMiddleware env_default res_ok (reply [(''confidence'', JNum ''1'')]) req_login =
     [oracle_post env_default req_login, Next] \<and>
   honeypotMiddleware env_default res_ok (reply [(''action'', JStr ''block'')]) req_login =
     [oracle_post env_default req_login, Next]"
proof -
  have 1: "no_verdict ((\<lambda>p. Rejected ECONNABORTED) (buildPayload req_login))" by simp
  have 2: "no_verdict ((\<lambda>p. Rejected OtherError) (buildPayload req_login))" by simp
  have 3: "no_verdict (reply_data (JStr []) (buildPayload req_login))"
    by (simp add: reply_data_def)
  have 4: "no_verdict (reply [(''confidence'', JNum ''1'')] (buildPayload req_login))"
    by code_simp
  have 5: "no_verdict (reply [(''action'', JStr ''block'')] (buildPayload req_login))"
    by code_simp
  from no_verdict_passthrough [where orc = "\<lambda>p. Rejected ECONNABORTED", OF suspect_req_login 1]
    no_verdict_passthrough [where orc = "\<lambda>p. Rejected OtherError", OF suspect_req_login 2]
    no_verdict_passthrough [where orc = "reply_data (JStr [])", OF suspect_req_login 3]
    no_verdict_passthrough [where orc = "reply [(''confidence'', JNum ''1'')]", OF suspect_req_login 4]
    no_verdict_passthrough [where orc = "reply [(''action'', JStr ''block'')]", OF suspect_req_login 5]
  show ?thesis by simp
qed

section \<open>Redirects\<close>

text \<open>
  Claim C4. For a redirect verdict whose target begins with a slash, the response is a
  redirect to the configured base URL, one trailing slash of the base removed, followed
  by the target. The witness is the case of the specification: the target
  \<^verbatim>\<open>/honeypot/fakedb\<close> under the base \<^verbatim>\<open>http://h:5000/\<close>.
\<close>

theorem redirect_resolution:
  assumes "suspect req" and "orc (buildPayload req) = Resolved js" and "truthy js"
    and "action_of (ar_of js) = Inr a" and "a = ''redirect'' \<or> a = ''redirect_honeypot''"
    and "js_get (ar_of js) ''url'' = JStr (CHR ''/'' # rest)"
    and "env_HONEYPOT_BASE env = Some base" and "base \<noteq> []"
  shows "honeypotMiddleware env res orc req =
           [oracle_post env req,
            Redirect (JStr ((if last base = CHR ''/'' then butlast base else base) @ CHR ''/'' # rest))]"
proof -
  from assms(5) have a: "a = ''redirect_honeypot'' \<or> a = ''redirect''" by blast
  have u: "or_js (js_get (ar_of js) ''url'') (JStr ''/honeypot/fakedb'') = JStr (CHR ''/'' # rest)"
    by (simp add: assms(6) or_js_def)
  have b: "or_str (env_HONEYPOT_BASE env) ''http://127.0.0.1:5000'' = base"
    using assms(7,8) by (simp add: or_str_def)
  note run = middleware_enforced [where orc = orc, OF assms(1-3)]
  show ?thesis
    unfolding run enforce_redirect_string [OF assms(4) a u] b
    using assms(8) by (simp add: startsWith_def strip_trailing_slash_def)
qed

theorem redirect_resolution_witness:
  "honeypotMiddleware env_h res_ok (reply [(''action'', JStr ''redirect''), (''url'', JStr ''/honeypot/fakedb'')])
     req_login =
   [oracle_post env_h req_login, Redirect (JStr ''http://h:5000/honeypot/fakedb'')]"
proof -
  let ?js = "JObj [(''action_result'',
                JObj [(''action'', JStr ''redirect''), (''url'', JStr ''/honeypot/fakedb'')])]"
  have 1: "reply [(''action'', JStr ''redirect''), (''url'', JStr ''/honeypot/fakedb'')]
             (buildPayload req_login) = Resolved ?js"
    by (simp add: reply_def)
  have 2: "truthy ?js" by simp
  have 3: "action_of (ar_of ?js) = Inr ''redirect''" by code_simp
  have 4: "js_get (ar_of ?js) ''url'' = JStr (CHR ''/'' # ''honeypot/fakedb'')" by code_simp
  have 5: "env_HONEYPOT_BASE env_h = Some ''http://h:5000/''" by (simp add: env_h_def)
  from redirect_resolution
    [where orc = "reply [(''action'', JStr ''redirect''), (''url'', JStr ''/honeypot/fakedb'')]",
      OF suspect_req_login 1 2 3 _ 4 5]
  show ?thesis by simp
qed

section \<open>Fake data\<close>

text \<open>
  Claim C5, as amended. When the fake-data branch is taken (the action is no redirect,
  and it is \<^verbatim>\<open>fake_data\<close> or the field \<^verbatim>\<open>fake\<close> is truthy), the response has
  the status 200 whatever status the verdict carries, and its body is the verdict's
  \<^verbatim>\<open>fake_payload\<close> as it is when that is truthy, the placeholder
  \<^verbatim>\<open>{"fake": "simulated data"}\<close> otherwise.
\<close>

theorem fake_data_response:
  assumes "suspect req" and "orc (buildPayload req) = Resolved js" and "truthy js"
    and "action_of (ar_of js) = Inr a"
    and "a \<noteq> ''redirect_honeypot''" and "a \<noteq> ''redirect''"
    and "a = ''fake_data'' \<or> truthy (js_get (ar_of js) ''fake'')"
  shows "honeypotMiddleware env res orc req =
           [oracle_post env req,
            StatusJson (JNum ''200'')
              (if truthy (js_get (ar_of js) ''fake_payload'')
               then js_get (ar_of js) ''fake_payload''
               else JObj [(''fake'', JStr ''simulated data'')])]"
proof -
  note run = middleware_enforced [where orc = orc, OF assms(1-3)]
  show ?thesis
    unfolding run enforce_fake [OF assms(4-7)] by (simp add: or_js_def)
qed

theorem fake_data_response_witness:
  "honeypotMiddleware env_default res_ok
     (reply [(''action'', JStr ''fake_data''), (''fake_payload'', JObj [(''foo'', JNum ''1'')]),
             (''status'', JNum ''200'')]) req_login =
   [oracle_post env_default req_login, StatusJson (JNum ''200'') (JObj [(''foo'', JNum ''1'')])] \<and>
   honeypotMiddleware env_default res_ok (reply [(''action'', JStr ''fake_data'')]) req_login =
   [oracle_post env_default req_login,
    StatusJson (JNum ''200'') (JObj [(''fake'', JStr ''simulated data'')])]"
proof -
  let ?ar1 = "[(''action'', JStr ''fake_data''), (''fake_payload'', JObj [(''foo'', JNum ''1'')]),
               (''status'', JNum ''200'')]"
  let ?ar2 = "[(''action'', JStr ''fake_data'')]"
  have r1: "reply ?ar1 (buildPayload req_login) = Resolved (JObj [(''action_result'', JObj ?ar1)])"
    and r2: "reply ?ar2 (buildPayload req_login) = Resolved (JObj [(''action_result'', JObj ?ar2)])"
    by (simp_all add: reply_def)
  have a1: "action_of (ar_of (JObj [(''action_result'', JObj ?ar1)])) = Inr ''fake_data''"
    and a2: "action_of (ar_of (JObj [(''action_result'', JObj ?ar2)])) = Inr ''fake_data''"
    by code_simp+
  have p1: "js_get (ar_of (JObj [(''action_result'', JObj ?ar1)])) ''fake_payload'' =
            JObj [(''foo'', JNum ''1'')]"
    and p2: "js_get (ar_of (JObj [(''action_result'', JObj ?ar2)])) ''fake_payload'' = JUndefined"
    by code_simp+
  from fake_data_response [where orc = "reply ?ar1" and env = env_default,
      OF suspect_req_login r1 _ a1]
    fake_data_response [where orc = "reply ?ar2" and env = env_default,
      OF suspect_req_login r2 _ a2]
  show ?thesis by (simp add: p1 p2)
qed

text \<open>
  The claim as stated fails on a fake-data verdict that gives the status 404: the
  response still has the status 200.
\<close>

theorem fake_data_status_counterexample:
  "js_get (ar_of (JObj [(''action_result'',
      JObj [(''action'', JStr ''fake_data''), (''fake_payload'', JObj [(''foo'', JNum ''1'')]),
            (''status'', JNum ''404'')])])) ''status'' = JNum ''404'' \<and>
   honeypotMiddleware env_default res_ok
     (reply [(''action'', JStr ''fake_data''), (''fake_payload'', JObj [(''foo'', JNum ''1'')]),
             (''status'', JNum ''404'')]) req_login =
   [oracle_post env_default req_login, StatusJson (JNum ''200'') (JObj [(''foo'', JNum ''1'')])]"
  by code_simp

section \<open>The tarpit\<close>




section \<open>Failures of enforcement\<close>




section \<open>Where the verdict is read\<close>



lemma enforce_redirect_calls:
  assumes "action_of (ar_of js) = Inr a" and "a = ''redirect_honeypot'' \<or> a = ''redirect''"
  shows "(\<exists>u. enforce env res js = ([Redirect u], Returned)) \<or>
         (\<exists>u. enforce env res js = ([Raised (RedirectCall u)], Threw ResponseError))"
  using assms by (auto simp add: enforce_def Let_def split: jsval.splits)







section \<open>Fake data before the tarpit\<close>

text \<open>
  Claim C9, as amended. The branches are tried in the order redirect, fake data, tarpit.
  When the action has a string that is neither \<^verbatim>\<open>redirect\<close> nor
  \<^verbatim>\<open>redirect_honeypot\<close> and \<^verbatim>\<open>fake\<close> is truthy, the fake-data response is written,
  whatever the action is (\<^verbatim>\<open>tarpit\<close>, \<^verbatim>\<open>tarpit_slowdown\<close>, \<^verbatim>\<open>delay\<close> or an unknown
  name). When the action is a redirect, \<^verbatim>\<open>res.redirect\<close> is called and nothing else,
  also when \<^verbatim>\<open>fake\<close> is truthy. The handler waits only when \<^verbatim>\<open>fake\<close> is absent or
  falsy. When the action has no string, reading it raises and the request is passed on,
  also when \<^verbatim>\<open>fake\<close> is truthy.
\<close>

theorem fake_before_tarpit:
  assumes "suspect req" and "orc (buildPayload req) = Resolved js" and "truthy js"
  shows "(action_of (ar_of js) = Inr a \<and> a \<noteq> ''redirect'' \<and> a \<noteq> ''redirect_honeypot'' \<and>
          truthy (js_get (ar_of js) ''fake'') \<longrightarrow>
            honeypotMiddleware env res orc req =
              [oracle_post env req,
               StatusJson (JNum ''200'')
                 (or_js (js_get (ar_of js) ''fake_payload'')
                    (JObj [(''fake'', JStr ''simulated data'')]))]) \<and>
         (action_of (ar_of js) = Inr a \<and> (a = ''redirect'' \<or> a = ''redirect_honeypot'') \<longrightarrow>
            (\<exists>u. honeypotMiddleware env res orc req = [oracle_post env req, Redirect u] \<or>
                 honeypotMiddleware env res orc req =
                   [oracle_post env req, Raised (RedirectCall u), Next])) \<and>
         ((\<exists>d. SetTimeout d \<in> set (honeypotMiddleware env res orc req)) \<longrightarrow>
            \<not> truthy (js_get (ar_of js) ''fake'')) \<and>
         (action_of (ar_of js) = Inl e \<longrightarrow>
            honeypotMiddleware env res orc req = [oracle_post env req, Next])"
proof -
  note run = middleware_enforced [where orc = orc, OF assms(1-3)]
  have 1: "honeypotMiddleware env res orc req =
              [oracle_post env req,
               StatusJson (JNum ''200'')
                 (or_js (js_get (ar_of js) ''fake_payload'')
                    (JObj [(''fake'', JStr ''simulated data'')]))]"
    if "action_of (ar_of js) = Inr a" "a \<noteq> ''redirect''" "a \<noteq> ''redirect_honeypot''"
      "truthy (js_get (ar_of js) ''fake'')" for a
    unfolding run using enforce_fake [OF that(1) that(3) that(2)] that(4) by simp
  have 2: "\<exists>u. honeypotMiddleware env res orc req = [oracle_post env req, Redirect u] \<or>
                 honeypotMiddleware env res orc req =
                   [oracle_post env req, Raised (RedirectCall u), Next]"
    if "action_of (ar_of js) = Inr a" "a = ''redirect'' \<or> a = ''redirect_honeypot''" for a
  proof -
    from that(2) have a: "a = ''redirect_honeypot'' \<or> a = ''redirect''" by blast
    from enforce_redirect_calls [OF that(1) a, of env res] show ?thesis
      unfolding run by auto
  qed
  have 4: "honeypotMiddleware env res orc req = [oracle_post env req, Next]"
    if "action_of (ar_of js) = Inl e" for e
    unfolding run enforce_threw [OF that] by simp
  have 3: "\<not> truthy (js_get (ar_of js) ''fake'')"
    if s: "\<exists>d. SetTimeout d \<in> set (honeypotMiddleware env res orc req)"
  proof
    assume f: "truthy (js_get (ar_of js) ''fake'')"
    show False
    proof (cases "action_of (ar_of js)")
      case (Inl e)
      from s show False unfolding 4 [OF Inl] by (simp add: oracle_post_def)
    next
      case (Inr b)
      show False
      proof (cases "b = ''redirect'' \<or> b = ''redirect_honeypot''")
        case True
        from 2 [OF Inr True] s show False by (auto simp add: oracle_post_def)
      next
        case False
        then have nb: "b \<noteq> ''redirect''" "b \<noteq> ''redirect_honeypot''" by simp_all
        from s show False unfolding 1 [OF Inr nb f] by (simp add: oracle_post_def)
      qed
    qed
  qed
  show ?thesis
    apply (intro conjI impI)
    subgoal by (elim conjE) (rule 1, assumption+)
    subgoal by (elim conjE) (rule 2, assumption+)
    subgoal by (rule 3)
    subgoal by (rule 4)
    done
qed

theorem fake_before_tarpit_witness:
  "honeypotMiddleware env_default res_checked
     (reply [(''action'', JStr ''tarpit''), (''fake'', JBool True), (''delay_ms'', JNum ''50'')])
     req_login =
   [oracle_post env_default req_login,
    StatusJson (JNum ''200'') (JObj [(''fake'', JStr ''simulated data'')])] \<and>
   (\<exists>u. honeypotMiddleware env_default res_checked
          (reply [(''action'', JStr ''redirect''), (''fake'', JBool True)]) req_login =
        [oracle_post env_default req_login, Redirect u] \<or>
        honeypotMiddleware env_default res_checked
          (reply [(''action'', JStr ''redirect''), (''fake'', JBool True)]) req_login =
        [oracle_post env_default req_login, Raised (RedirectCall u), Next]) \<and>
   honeypotMiddleware env_default res_checked
     (reply [(''action'', JStr ''redirect''), (''fake'', JBool True)]) req_login =
   [oracle_post env_default req_login, Redirect (JStr ''http://127.0.0.1:5000/honeypot/fakedb'')] \<and>
   \<not> truthy (js_get (ar_of (JObj [(''action_result'',
         JObj [(''action'', JStr ''tarpit''), (''delay_ms'', JNum ''50'')])])) ''fake'')"
proof -
  let ?ar1 = "[(''action'', JStr ''tarpit''), (''fake'', JBool True), (''delay_ms'', JNum ''50'')]"
  let ?ar2 = "[(''action'', JStr ''redirect''), (''fake'', JBool True)]"
  let ?ar3 = "[(''action'', JStr ''tarpit''), (''delay_ms'', JNum ''50'')]"
  let ?js1 = "JObj [(''action_result'', JObj ?ar1)]"
  let ?js2 = "JObj [(''action_result'', JObj ?ar2)]"
  let ?js3 = "JObj [(''action_result'', JObj ?ar3)]"
  have r: "reply ?ar1 (buildPayload req_login) = Resolved ?js1"
    "reply ?ar2 (buildPayload req_login) = Resolved ?js2"
    "reply ?ar3 (buildPayload req_login) = Resolved ?js3"
    by (simp_all add: reply_def)
  have t: "truthy ?js1" "truthy ?js2" "truthy ?js3" by simp_all
  note thm1 = fake_before_tarpit [where orc = "reply ?ar1" and env = env_default
      and res = res_checked and a = "''tarpit''", OF suspect_req_login r(1) t(1)]
  note thm2 = fake_before_tarpit [where orc = "reply ?ar2" and env = env_default
      and res = res_checked and a = "''redirect''", OF suspect_req_login r(2) t(2)]
  note thm3 = fake_before_tarpit [where orc = "reply ?ar3" and env = env_default
      and res = res_checked, OF suspect_req_login r(3) t(3)]
  have h1: "action_of (ar_of ?js1) = Inr ''tarpit'' \<and> ''tarpit'' \<noteq> ''redirect'' \<and>
            ''tarpit'' \<noteq> ''redirect_honeypot'' \<and> truthy (js_get (ar_of ?js1) ''fake'')"
    by code_simp
  have p1: "or_js (js_get (ar_of ?js1) ''fake_payload'') (JObj [(''fake'', JStr ''simulated data'')]) =
            JObj [(''fake'', JStr ''simulated data'')]"
    by code_simp
  from thm1 [THEN conjunct1] h1
  have "honeypotMiddleware env_default res_checked (reply ?ar1) req_login =
     [oracle_post env_default req_login,
      StatusJson (JNum ''200'')
        (or_js (js_get (ar_of ?js1) ''fake_payload'') (JObj [(''fake'', JStr ''simulated data'')]))]"
    by (rule mp)
  then have 1: "honeypotMiddleware env_default res_checked (reply ?ar1) req_login =
     [oracle_post env_default req_login,
      StatusJson (JNum ''200'') (JObj [(''fake'', JStr ''simulated data'')])]"
    unfolding p1 .
  have h2: "action_of (ar_of ?js2) = Inr ''redirect'' \<and>
            (''redirect'' = ''redirect'' \<or> ''redirect'' = ''redirect_honeypot'')"
    by code_simp
  from thm2 [THEN conjunct2, THEN conjunct1] h2
  have 2: "\<exists>u. honeypotMiddleware env_default res_checked (reply ?ar2) req_login =
        [oracle_post env_default req_login, Redirect u] \<or>
        honeypotMiddleware env_default res_checked (reply ?ar2) req_login =
        [oracle_post env_default req_login, Raised (RedirectCall u), Next]"
    by (rule mp)
  have 3: "honeypotMiddleware env_default res_checked (reply ?ar2) req_login =
     [oracle_post env_default req_login, Redirect (JStr ''http://127.0.0.1:5000/honeypot/fakedb'')]"
    by code_simp
  have s3: "\<exists>d. SetTimeout d \<in> set (honeypotMiddleware env_default res_checked (reply ?ar3) req_login)"
  proof -
    have "honeypotMiddleware env_default res_checked (reply ?ar3) req_login =
     [oracle_post env_default req_login, SetTimeout (Fin 50),
      StatusSend (JNum ''200'') (JStr ''Slow down'')]"
      by code_simp
    then show ?thesis by (intro exI [of _ "Fin 50"]) simp
  qed
  from thm3 [THEN conjunct2, THEN conjunct2, THEN conjunct1] s3
  have 4: "\<not> truthy (js_get (ar_of ?js3) ''fake'')"
    by (rule mp)
  from 1 2 3 4 show ?thesis by (intro conjI)
qed

text \<open>
  The claim as stated fails on a reply whose action is an object with an own property
  \<^verbatim>\<open>toString\<close> and whose \<^verbatim>\<open>fake\<close> is true: the action is no redirect and
  \<^verbatim>\<open>fake\<close> is truthy, yet no fake data is served; the request is passed on.
\<close>

theorem unreadable_action_counterexample:
  "truthy (js_get (ar_of (JObj [(''action_result'',
      JObj [(''action'', JObj [(''toString'', JNum ''1'')]), (''fake'', JBool True)])])) ''fake'') \<and>
   js_get (ar_of (JObj [(''action_result'',
      JObj [(''action'', JObj [(''toString'', JNum ''1'')]), (''fake'', JBool True)])])) ''action'' =
     JObj [(''toString'', JNum ''1'')] \<and>
   honeypotMiddleware env_default res_ok
     (reply [(''action'', JObj [(''toString'', JNum ''1'')]), (''fake'', JBool True)]) req_login =
   [oracle_post env_default req_login, Next]"
  by code_simp

section \<open>A delay of zero\<close>

text \<open>
  Claim C10. When the tarpit branch is taken and \<^verbatim>\<open>delay_ms\<close> is falsy (0, the empty
  string, absent), the handler waits the default 1000 milliseconds, not 0; after the wait
  it calls \<^verbatim>\<open>res.status(status || 200).send(message || "Slow down")\<close>, and calls
  \<^verbatim>\<open>next()\<close> when that call raises.
\<close>

theorem falsy_delay_is_default:
  assumes "suspect req" and "orc (buildPayload req) = Resolved js" and "truthy js"
    and "action_of (ar_of js) = Inr a"
    and "a = ''tarpit'' \<or> a = ''tarpit_slowdown'' \<or> a = ''delay''"
    and "\<not> truthy (js_get (ar_of js) ''fake'')"
    and "\<not> truthy (js_get (ar_of js) ''delay_ms'')"
  shows "honeypotMiddleware env res orc req =
           oracle_post env req # SetTimeout (Fin 1000) #
             (if res (SendCall (or_js (js_get (ar_of js) ''status'') (JNum ''200''))
                       (or_js (js_get (ar_of js) ''message'') (JStr ''Slow down'')))
              then [Raised (SendCall (or_js (js_get (ar_of js) ''status'') (JNum ''200''))
                              (or_js (js_get (ar_of js) ''message'') (JStr ''Slow down''))),
                    Next]
              else [StatusSend (or_js (js_get (ar_of js) ''status'') (JNum ''200''))
                      (or_js (js_get (ar_of js) ''message'') (JStr ''Slow down''))])"
proof -
  note run = middleware_enforced [where orc = orc, OF assms(1-3)]
  have "parseInt (or_js (js_get (ar_of js) ''delay_ms'') (JNum ''1000'')) = Inr (Fin 1000)"
    using assms(7) by (simp add: or_js_def parseInt_JNum_1000)
  then show ?thesis
    unfolding run enforce_tarpit [OF assms(4-6)] by simp
qed

theorem falsy_delay_is_default_witness:
  "honeypotMiddleware env_default res_checked
     (reply [(''action'', JStr ''tarpit_slowdown''), (''delay_ms'', JNum ''0'')]) req_login =
   [oracle_post env_default req_login, SetTimeout (Fin 1000),
    StatusSend (JNum ''200'') (JStr ''Slow down'')] \<and>
   honeypotMiddleware env_default res_checked
     (reply [(''action'', JStr ''delay''), (''delay_ms'', JStr [])]) req_login =
   [oracle_post env_default req_login, SetTimeout (Fin 1000),
    StatusSend (JNum ''200'') (JStr ''Slow down'')]"
proof -
  let ?ar1 = "[(''action'', JStr ''tarpit_slowdown''), (''delay_ms'', JNum ''0'')]"
  let ?ar2 = "[(''action'', JStr ''delay''), (''delay_ms'', JStr [])]"
  have r1: "reply ?ar1 (buildPayload req_login) = Resolved (JObj [(''action_result'', JObj ?ar1)])"
    and r2: "reply ?ar2 (buildPayload req_login) = Resolved (JObj [(''action_result'', JObj ?ar2)])"
    by (simp_all add: reply_def)
  have a1: "action_of (ar_of (JObj [(''action_result'', JObj ?ar1)])) = Inr ''tarpit_slowdown''"
    and a2: "action_of (ar_of (JObj [(''action_result'', JObj ?ar2)])) = Inr ''delay''"
    by code_simp+
  have f1: "\<not> truthy (js_get (ar_of (JObj [(''action_result'', JObj ?ar1)])) ''fake'')"
    and f2: "\<not> truthy (js_get (ar_of (JObj [(''action_result'', JObj ?ar2)])) ''fake'')"
    and d1: "\<not> truthy (js_get (ar_of (JObj [(''action_result'', JObj ?ar1)])) ''delay_ms'')"
    and d2: "\<not> truthy (js_get (ar_of (JObj [(''action_result'', JObj ?ar2)])) ''delay_ms'')"
    by code_simp+
  have s1: "or_js (js_get (ar_of (JObj [(''action_result'', JObj ?ar1)])) ''status'') (JNum ''200'') =
            JNum ''200''"
    and m1: "or_js (js_get (ar_of (JObj [(''action_result'', JObj ?ar1)])) ''message'')
               (JStr ''Slow down'') = JStr ''Slow down''"
    and s2: "or_js (js_get (ar_of (JObj [(''action_result'', JObj ?ar2)])) ''status'') (JNum ''200'') =
            JNum ''200''"
    and m2: "or_js (js_get (ar_of (JObj [(''action_result'', JObj ?ar2)])) ''message'')
               (JStr ''Slow down'') = JStr ''Slow down''"
    by code_simp+
  have ok: "res_checked (SendCall (JNum ''200'') (JStr ''Slow down'')) = False"
    by code_simp
  from falsy_delay_is_default [where orc = "reply ?ar1" and env = env_default
      and res = res_checked, OF suspect_req_login r1 _ a1 _ f1 d1]
  have 1: "honeypotMiddleware env_default res_checked (reply ?ar1) req_login =
   [oracle_post env_default req_login, SetTimeout (Fin 1000),
    StatusSend (JNum ''200'') (JStr ''Slow down'')]"
    unfolding s1 m1 ok by simp
  from falsy_delay_is_default [where orc = "reply ?ar2" and env = env_default
      and res = res_checked, OF suspect_req_login r2 _ a2 _ f2 d2]
  have 2: "honeypotMiddleware env_default res_checked (reply ?ar2) req_login =
   [oracle_post env_default req_login, SetTimeout (Fin 1000),
    StatusSend (JNum ''200'') (JStr ''Slow down'')]"
    unfolding s2 m2 ok by simp
  from 1 2 show ?thesis by simp
qed

end
